theory Spec2Isabelle
  imports Main
begin

section \<open>The browser file dialog service\<close>

text \<open>
  A model of \<^verbatim>\<open>src/vs/workbench/services/dialogs/browser/fileDialogService.ts\<close>.
  The class \<^verbatim>\<open>FileDialogService\<close> has no data of its own beyond one memoized
  accessor; everything else it does is a call to a collaborator. The model therefore
  threads one record through every operation: the instance's memo slot, the list of
  calls made to collaborators so far (in the order they were made), and the number of
  identifiers drawn from the UUID generator. What a collaborator answers is a parameter
  (the record \<open>env\<close>); an answer may depend on everything that happened before it.
\<close>

subsection \<open>Values\<close>

text \<open>
  A URI as \<^verbatim>\<open>URI.from({ scheme, path })\<close> builds it: the other components are empty.
\<close>

record uri =
  scheme :: string
  path :: string

text \<open>
  A \<^verbatim>\<open>FileSystemHandle\<close> of the browser: its \<^verbatim>\<open>name\<close>, and a number standing for
  the identity of the opaque object.
\<close>

record handle =
  name :: string
  handle_id :: nat

text \<open>A \<^verbatim>\<open>FileFilter\<close>; its field \<^verbatim>\<open>name\<close> is \<open>filter_name\<close> here.\<close>

record file_filter =
  filter_name :: string
  extensions :: "string list"

text \<open>
  A \<^verbatim>\<open>FilePickerAcceptType\<close>. The source builds \<^verbatim>\<open>accept\<close> with exactly one key, so
  it is one pair of a MIME type and its extensions.
\<close>

record picker_accept_type =
  description :: string
  accept :: "string \<times> string list"

text \<open>
  The option objects, with the fields this file reads or writes. An absent (undefined)
  field is \<open>None\<close>.
\<close>

record pick_options =
  defaultUri :: "uri option"
  availableFileSystems :: "string list option"

record save_options = pick_options +
  filters :: "file_filter list option"

record open_options = save_options +
  canSelectFiles :: "bool option"

text \<open>
  What a call produces: a returned value or a thrown error (for an \<^verbatim>\<open>async\<close> method, a
  resolved or a rejected promise).
\<close>

datatype error =
    Error string      \<comment> \<open>\<^verbatim>\<open>new Error(message)\<close>\<close>
  | TypeError         \<comment> \<open>reading a property of \<^verbatim>\<open>undefined\<close>\<close>
  | Rejection string  \<comment> \<open>a collaborator's promise rejected (the user dismissed a picker)\<close>

datatype 'a outcome = Return 'a | Throw error

text \<open>A value of type \<^verbatim>\<open>any\<close>: \<^verbatim>\<open>undefined\<close>, or something opaque.\<close>

datatype js_any = Undefined | Opaque nat

text \<open>The identity of a file system provider object.\<close>

type_synonym provider = nat

subsection \<open>Calls to collaborators\<close>

datatype event =
    GetProvider string
  | DefaultFilePath string
  | DefaultFolderPath string
  | DefaultWorkspacePath string
  | ShowOpenFilePicker bool "picker_accept_type list option"
  | ShowSaveFilePicker "picker_accept_type list option"
  | ShowDirectoryPicker
  | RegisterFileHandle provider string handle
  | RegisterDirectoryHandle provider string handle
  | OpenerServiceOpen uri
  | PickFileFolderAndOpenSimplified string pick_options bool
  | PickFileAndOpenSimplified string pick_options bool
  | PickFolderAndOpenSimplified string pick_options
  | PickWorkspaceAndOpenSimplified string pick_options
  | PickFileToSaveSimplified string save_options
  | ShowSaveDialogSimplified string save_options
  | ShowOpenDialogSimplified string open_options

text \<open>
  The collaborators: the inherited helpers of \<^verbatim>\<open>AbstractFileDialogService\<close>, the
  services it holds, the browser's pickers and the utility functions. The first
  argument \<open>event list\<close> of a stateful collaborator is the history at the moment of the
  call. \<open>generateUuid env n\<close> is the identifier the generator yields at its \<open>n\<close>-th call.
  \<open>getProvider\<close> is \<^verbatim>\<open>fileService.getProvider\<close> and answers with the provider object the
  cast \<^verbatim>\<open>as HTMLFileSystemProvider\<close> of the source takes it to be;
  \<open>openerService_open\<close> is \<^verbatim>\<open>openerService.open\<close>. The pickers, the opener and the
  fallbacks may reject; the inherited helpers that find a default path resolve.
\<close>

record env =
  getFileSystemSchema :: "uri option \<Rightarrow> string list option \<Rightarrow> string"
  getWorkspaceAvailableFileSystems :: "pick_options \<Rightarrow> string list"
  getPickFileToSaveDialogOptions :: "uri \<Rightarrow> string list option \<Rightarrow> save_options"
  defaultFilePath :: "event list \<Rightarrow> string \<Rightarrow> uri"
  defaultFolderPath :: "event list \<Rightarrow> string \<Rightarrow> uri"
  defaultWorkspacePath :: "event list \<Rightarrow> string \<Rightarrow> uri"
  getMediaOrTextMime :: "string \<Rightarrow> string option"
  localize :: "string \<Rightarrow> string \<Rightarrow> string"
  generateUuid :: "nat \<Rightarrow> string"
  getProvider :: "event list \<Rightarrow> string \<Rightarrow> provider"
  showOpenFilePicker ::
    "event list \<Rightarrow> bool \<Rightarrow> picker_accept_type list option \<Rightarrow> handle list outcome"
  showSaveFilePicker :: "event list \<Rightarrow> picker_accept_type list option \<Rightarrow> handle outcome"
  showDirectoryPicker :: "event list \<Rightarrow> handle outcome"
  openerService_open :: "event list \<Rightarrow> uri \<Rightarrow> bool outcome"
  pickFileFolderAndOpenSimplified ::
    "event list \<Rightarrow> string \<Rightarrow> pick_options \<Rightarrow> bool \<Rightarrow> js_any outcome"
  pickFileAndOpenSimplified ::
    "event list \<Rightarrow> string \<Rightarrow> pick_options \<Rightarrow> bool \<Rightarrow> js_any outcome"
  pickFolderAndOpenSimplified :: "event list \<Rightarrow> string \<Rightarrow> pick_options \<Rightarrow> js_any outcome"
  pickWorkspaceAndOpenSimplified :: "event list \<Rightarrow> string \<Rightarrow> pick_options \<Rightarrow> js_any outcome"
  pickFileToSaveSimplified :: "event list \<Rightarrow> string \<Rightarrow> save_options \<Rightarrow> uri option outcome"
  showSaveDialogSimplified :: "event list \<Rightarrow> string \<Rightarrow> save_options \<Rightarrow> uri option outcome"
  showOpenDialogSimplified ::
    "event list \<Rightarrow> string \<Rightarrow> open_options \<Rightarrow> uri list option outcome"

subsection \<open>State\<close>

text \<open>
  \<open>memo_fileSystemProvider\<close> is the only state the instance owns. \<open>trace\<close> and
  \<open>uuids_generated\<close> belong to the world around it.
\<close>

record state =
  memo_fileSystemProvider :: "provider option"
  trace :: "event list"
  uuids_generated :: nat

definition fresh :: state where
  "fresh = \<lparr>memo_fileSystemProvider = None, trace = [], uuids_generated = 0\<rparr>"

definition log :: "event \<Rightarrow> state \<Rightarrow> state" where
  "log e s = s\<lparr>trace := trace s @ [e]\<rparr>"

subsection \<open>Constants of the platform\<close>

text \<open>
  Modelled from the spec: the scheme names \<^verbatim>\<open>Schemas.file\<close>, \<^verbatim>\<open>Schemas.userData\<close> and
  \<^verbatim>\<open>Schemas.tmp\<close> of \<^verbatim>\<open>vs/base/common/network\<close>, which is not among the source files.
  They are the schemes the native picker can serve: \<^verbatim>\<open>file\<close>, \<^verbatim>\<open>vscode-userdata\<close> and
  \<^verbatim>\<open>tmp\<close>.
\<close>

definition Schemas_file :: string where
  "Schemas_file = ''file''"

definition Schemas_userData :: string where
  "Schemas_userData = ''vscode-userdata''"

definition Schemas_tmp :: string where
  "Schemas_tmp = ''tmp''"

text \<open>
  Modelled from the spec: \<^verbatim>\<open>URI.from\<close> of \<^verbatim>\<open>vs/base/common/uri\<close>, which is not among the
  source files. It builds the synthetic URI from the scheme and the path it is given.
\<close>

definition URI_from :: "string \<Rightarrow> string \<Rightarrow> uri" where
  "URI_from sch p = \<lparr>scheme = sch, path = p\<rparr>"

subsection \<open>The private members\<close>

text \<open>
  Modelled from the spec: the decorator \<^verbatim>\<open>@memoize\<close> of \<^verbatim>\<open>vs/base/common/decorators\<close>,
  which is not among the source files. The spec calls the accessor memoized: its body
  runs at the first read, the value is kept on the instance, and every later read
  yields the kept value.
\<close>

definition fileSystemProvider :: "env \<Rightarrow> state \<Rightarrow> provider \<times> state" where
  "fileSystemProvider e s =
     (case memo_fileSystemProvider s of
        Some p \<Rightarrow> (p, s)
      | None \<Rightarrow>
          (let p = getProvider e (trace s) Schemas_file;
               s1 = log (GetProvider Schemas_file) s
           in (p, s1\<lparr>memo_fileSystemProvider := Some p\<rparr>)))"

definition shouldUseSimplified :: "string \<Rightarrow> bool" where
  "shouldUseSimplified sch = (\<not> List.member [Schemas_file, Schemas_userData, Schemas_tmp] sch)"

definition getFilePickerTypes ::
  "env \<Rightarrow> file_filter list option \<Rightarrow> picker_accept_type list option" where
  "getFilePickerTypes e fs =
     map_option
       (\<lambda>fl.
          map (\<lambda>f.
                 let exts = filter (\<lambda>ext. \<not> List.member ext CHR ''-'' \<and>
                                           \<not> List.member ext CHR ''*'' \<and>
                                           \<not> List.member ext CHR ''_'') (extensions f);
                     first = (case extensions f of [] \<Rightarrow> ''undefined'' | x # _ \<Rightarrow> x);
                     mime = (case getMediaOrTextMime e (''fileName.'' @ first) of
                               None \<Rightarrow> ''text/plain''
                             | Some m \<Rightarrow> m)
                 in \<lparr>description = filter_name f,
                     accept = (mime, map (\<lambda>ext. if take 1 ext = ''.'' then ext else ''.'' @ ext) exts)\<rparr>)
              (filter (\<lambda>f. \<not> (length (extensions f) = 1 \<and>
                                 (extensions f ! 0 = ''*'' \<or> extensions f ! 0 = '''')))
                 fl))
       fs"

subsection \<open>The operations\<close>

text \<open>
  Each operation returns its outcome and the state after it. The four \<^verbatim>\<open>pick...AndOpen\<close>
  methods assign to fields of the \<^verbatim>\<open>options\<close> object they are given, so they return the
  object as they leave it too.
\<close>

definition pickFileFolderAndOpen ::
  "env \<Rightarrow> pick_options \<Rightarrow> state \<Rightarrow> js_any outcome \<times> pick_options \<times> state" where
  "pickFileFolderAndOpen e options s =
     (let schema = getFileSystemSchema e (defaultUri options) (availableFileSystems options);
          (options1, s1) =
            (if defaultUri options = None
             then (options\<lparr>defaultUri := Some (defaultFilePath e (trace s) schema)\<rparr>,
                   log (DefaultFilePath schema) s)
             else (options, s))
      in if shouldUseSimplified schema
         then (pickFileFolderAndOpenSimplified e (trace s1) schema options1 False, options1,
               log (PickFileFolderAndOpenSimplified schema options1 False) s1)
         else (Throw (Error (localize e ''pickFolderAndOpen''
                 ''Can't open folders, try adding a folder to the workspace instead.'')),
               options1, s1))"

definition pickFileAndOpen ::
  "env \<Rightarrow> pick_options \<Rightarrow> state \<Rightarrow> js_any outcome \<times> pick_options \<times> state" where
  "pickFileAndOpen e options s =
     (let schema = getFileSystemSchema e (defaultUri options) (availableFileSystems options);
          (options1, s1) =
            (if defaultUri options = None
             then (options\<lparr>defaultUri := Some (defaultFilePath e (trace s) schema)\<rparr>,
                   log (DefaultFilePath schema) s)
             else (options, s))
      in if shouldUseSimplified schema
         then (pickFileAndOpenSimplified e (trace s1) schema options1 False, options1,
               log (PickFileAndOpenSimplified schema options1 False) s1)
         else
           (let s2 = log (ShowOpenFilePicker False None) s1
            in case showOpenFilePicker e (trace s1) False None of
                 Throw err \<Rightarrow> (Throw err, options1, s2)
               | Return hs \<Rightarrow>
                   (let uuid = generateUuid e (uuids_generated s2);
                        s3 = s2\<lparr>uuids_generated := Suc (uuids_generated s2)\<rparr>
                    in case hs of
                         [] \<Rightarrow> (Throw TypeError, options1, s3)
                       | h # _ \<Rightarrow>
                           (let u = URI_from Schemas_file (''/'' @ uuid @ ''/'' @ name h);
                                (p, s4) = fileSystemProvider e s3;
                                s5 = log (RegisterFileHandle p uuid h) s4;
                                s6 = log (OpenerServiceOpen u) s5
                            in case openerService_open e (trace s5) u of
                                 Throw err \<Rightarrow> (Throw err, options1, s6)
                               | Return _ \<Rightarrow> (Return Undefined, options1, s6)))))"

definition pickFolderAndOpen ::
  "env \<Rightarrow> pick_options \<Rightarrow> state \<Rightarrow> js_any outcome \<times> pick_options \<times> state" where
  "pickFolderAndOpen e options s =
     (let schema = getFileSystemSchema e (defaultUri options) (availableFileSystems options);
          (options1, s1) =
            (if defaultUri options = None
             then (options\<lparr>defaultUri := Some (defaultFolderPath e (trace s) schema)\<rparr>,
                   log (DefaultFolderPath schema) s)
             else (options, s))
      in if shouldUseSimplified schema
         then (pickFolderAndOpenSimplified e (trace s1) schema options1, options1,
               log (PickFolderAndOpenSimplified schema options1) s1)
         else (Throw (Error (localize e ''pickFolderAndOpen''
                 ''Can't open folders, try adding a folder to the workspace instead.'')),
               options1, s1))"

definition pickWorkspaceAndOpen ::
  "env \<Rightarrow> pick_options \<Rightarrow> state \<Rightarrow> js_any outcome \<times> pick_options \<times> state" where
  "pickWorkspaceAndOpen e options s =
     (let options0 = options\<lparr>availableFileSystems :=
                                 Some (getWorkspaceAvailableFileSystems e options)\<rparr>;
          schema = getFileSystemSchema e (defaultUri options0) (availableFileSystems options0);
          (options1, s1) =
            (if defaultUri options0 = None
             then (options0\<lparr>defaultUri := Some (defaultWorkspacePath e (trace s) schema)\<rparr>,
                   log (DefaultWorkspacePath schema) s)
             else (options0, s))
      in if shouldUseSimplified schema
         then (pickWorkspaceAndOpenSimplified e (trace s1) schema options1, options1,
               log (PickWorkspaceAndOpenSimplified schema options1) s1)
         else (Throw (Error (localize e ''pickWorkspaceAndOpen''
                 ''Can't open workspaces, try adding a folder to the workspace instead.'')),
               options1, s1))"

definition pickFileToSave ::
  "env \<Rightarrow> uri \<Rightarrow> string list option \<Rightarrow> state \<Rightarrow> uri option outcome \<times> state" where
  "pickFileToSave e default_uri available s =
     (let schema = getFileSystemSchema e (Some default_uri) available;
          options = getPickFileToSaveDialogOptions e default_uri available
      in if shouldUseSimplified schema
         then (pickFileToSaveSimplified e (trace s) schema options,
               log (PickFileToSaveSimplified schema options) s)
         else
           (let types = getFilePickerTypes e (filters options);
                s1 = log (ShowSaveFilePicker types) s
            in case showSaveFilePicker e (trace s) types of
                 Throw err \<Rightarrow> (Throw err, s1)
               | Return h \<Rightarrow>
                   (let uuid = generateUuid e (uuids_generated s1);
                        s2 = s1\<lparr>uuids_generated := Suc (uuids_generated s1)\<rparr>;
                        u = URI_from Schemas_file (''/'' @ uuid @ ''/'' @ name h);
                        (p, s3) = fileSystemProvider e s2;
                        s4 = log (RegisterFileHandle p uuid h) s3
                    in (Return (Some u), s4))))"

definition showSaveDialog ::
  "env \<Rightarrow> save_options \<Rightarrow> state \<Rightarrow> uri option outcome \<times> state" where
  "showSaveDialog e options s =
     (let schema = getFileSystemSchema e (defaultUri options) (availableFileSystems options)
      in if shouldUseSimplified schema
         then (showSaveDialogSimplified e (trace s) schema options,
               log (ShowSaveDialogSimplified schema options) s)
         else
           (let types = getFilePickerTypes e (filters options);
                s1 = log (ShowSaveFilePicker types) s
            in case showSaveFilePicker e (trace s) types of
                 Throw err \<Rightarrow> (Throw err, s1)
               | Return h \<Rightarrow>
                   (let uuid = generateUuid e (uuids_generated s1);
                        s2 = s1\<lparr>uuids_generated := Suc (uuids_generated s1)\<rparr>;
                        u = URI_from Schemas_file (''/'' @ uuid @ ''/'' @ name h);
                        (p, s3) = fileSystemProvider e s2;
                        s4 = log (RegisterFileHandle p uuid h) s3
                    in (Return (Some u), s4))))"

text \<open>
  \<^verbatim>\<open>if (handleName)\<close> tests a \<^verbatim>\<open>string | undefined\<close> for truthiness: \<^verbatim>\<open>undefined\<close> and the
  empty string are both falsy.
\<close>

definition truthy :: "string option \<Rightarrow> bool" where
  "truthy v = (case v of None \<Rightarrow> False | Some str \<Rightarrow> str \<noteq> [])"

text \<open>
  In \<open>showOpenDialog\<close> the identifier is drawn before the picker is shown.
  \<^verbatim>\<open>options.canSelectFiles\<close> is an optional boolean: absent counts as false. The list
  pattern \<open>[h]\<close> is the test \<^verbatim>\<open>handle.length === 1\<close> with \<open>h\<close> for \<^verbatim>\<open>handle[0]\<close>.
\<close>

definition showOpenDialog ::
  "env \<Rightarrow> open_options \<Rightarrow> state \<Rightarrow> uri list option outcome \<times> state" where
  "showOpenDialog e options s =
     (let schema = getFileSystemSchema e (defaultUri options) (availableFileSystems options)
      in if shouldUseSimplified schema
         then (showOpenDialogSimplified e (trace s) schema options,
               log (ShowOpenDialogSimplified schema options) s)
         else
           (let uuid = generateUuid e (uuids_generated s);
                s1 = s\<lparr>uuids_generated := Suc (uuids_generated s)\<rparr>;
                (picked, s4) =
                  (if canSelectFiles options = Some True
                   then
                     (let types = getFilePickerTypes e (filters options);
                          s2 = log (ShowOpenFilePicker False types) s1
                      in case showOpenFilePicker e (trace s1) False types of
                           Throw err \<Rightarrow> (Throw err, s2)
                         | Return hs \<Rightarrow>
                             (case hs of
                                [h] \<Rightarrow>
                                  (let (p, s3) = fileSystemProvider e s2
                                   in (Return (Some (name h)),
                                       log (RegisterFileHandle p uuid h) s3))
                              | _ \<Rightarrow> (Return None, s2)))
                   else
                     (let s2 = log ShowDirectoryPicker s1
                      in case showDirectoryPicker e (trace s1) of
                           Throw err \<Rightarrow> (Throw err, s2)
                         | Return h \<Rightarrow>
                             (let (p, s3) = fileSystemProvider e s2
                              in (Return (Some (name h)),
                                  log (RegisterDirectoryHandle p uuid h) s3))))
            in case picked of
                 Throw err \<Rightarrow> (Throw err, s4)
               | Return handleName \<Rightarrow>
                   (if truthy handleName
                    then (Return (Some [URI_from Schemas_file
                                          (''/'' @ uuid @ ''/'' @ the handleName)]), s4)
                    else (Return None, s4))))"

subsection \<open>Sequences of calls\<close>

text \<open>The public methods of the class, each with its arguments.\<close>

datatype call =
    PickFileFolderAndOpen pick_options
  | PickFileAndOpen pick_options
  | PickFolderAndOpen pick_options
  | PickWorkspaceAndOpen pick_options
  | PickFileToSave uri "string list option"
  | ShowSaveDialog save_options
  | ShowOpenDialog open_options

fun perform :: "env \<Rightarrow> call \<Rightarrow> state \<Rightarrow> state" where
  "perform e (PickFileFolderAndOpen options) s = snd (snd (pickFileFolderAndOpen e options s))"
| "perform e (PickFileAndOpen options) s = snd (snd (pickFileAndOpen e options s))"
| "perform e (PickFolderAndOpen options) s = snd (snd (pickFolderAndOpen e options s))"
| "perform e (PickWorkspaceAndOpen options) s = snd (snd (pickWorkspaceAndOpen e options s))"
| "perform e (PickFileToSave default_uri available) s =
     snd (pickFileToSave e default_uri available s)"
| "perform e (ShowSaveDialog options) s = snd (showSaveDialog e options s)"
| "perform e (ShowOpenDialog options) s = snd (showOpenDialog e options s)"

fun run :: "env \<Rightarrow> call list \<Rightarrow> state \<Rightarrow> state" where
  "run e [] s = s"
| "run e (c # cs) s = run e cs (perform e c s)"

subsection \<open>Reading a trace\<close>

fun registered_id :: "event \<Rightarrow> string option" where
  "registered_id (RegisterFileHandle p uuid h) = Some uuid"
| "registered_id (RegisterDirectoryHandle p uuid h) = Some uuid"
| "registered_id _ = None"

definition registered_ids :: "event list \<Rightarrow> string list" where
  "registered_ids t = List.map_filter registered_id t"

fun provider_used :: "event \<Rightarrow> provider option" where
  "provider_used (RegisterFileHandle p uuid h) = Some p"
| "provider_used (RegisterDirectoryHandle p uuid h) = Some p"
| "provider_used _ = None"

definition providers_used :: "event list \<Rightarrow> provider list" where
  "providers_used t = List.map_filter provider_used t"

fun is_registration :: "event \<Rightarrow> bool" where
  "is_registration (RegisterFileHandle p uuid h) = True"
| "is_registration (RegisterDirectoryHandle p uuid h) = True"
| "is_registration _ = False"

fun is_picker :: "event \<Rightarrow> bool" where
  "is_picker (ShowOpenFilePicker multiple types) = True"
| "is_picker (ShowSaveFilePicker types) = True"
| "is_picker ShowDirectoryPicker = True"
| "is_picker _ = False"

fun is_simplified :: "event \<Rightarrow> bool" where
  "is_simplified (PickFileFolderAndOpenSimplified schema options preferNewWindow) = True"
| "is_simplified (PickFileAndOpenSimplified schema options preferNewWindow) = True"
| "is_simplified (PickFolderAndOpenSimplified schema options) = True"
| "is_simplified (PickWorkspaceAndOpenSimplified schema options) = True"
| "is_simplified (PickFileToSaveSimplified schema options) = True"
| "is_simplified (ShowSaveDialogSimplified schema options) = True"
| "is_simplified (ShowOpenDialogSimplified schema options) = True"
| "is_simplified _ = False"

fun is_lookup :: "event \<Rightarrow> bool" where
  "is_lookup (GetProvider sch) = True"
| "is_lookup _ = False"

definition lookups :: "event list \<Rightarrow> event list" where
  "lookups t = filter is_lookup t"


text \<open>The calls an operation adds to the trace, and what kind of call is among them.\<close>

definition new_events :: "state \<Rightarrow> state \<Rightarrow> event list" where
  "new_events s s' = drop (length (trace s)) (trace s')"

definition delegates :: "state \<Rightarrow> state \<Rightarrow> bool" where
  "delegates s s' = list_ex is_simplified (new_events s s')"

definition invokes_picker :: "state \<Rightarrow> state \<Rightarrow> bool" where
  "invokes_picker s s' = list_ex is_picker (new_events s s')"

definition registers_handle :: "state \<Rightarrow> state \<Rightarrow> bool" where
  "registers_handle s s' = list_ex is_registration (new_events s s')"

text \<open>What a read of the accessor adds to the trace: a lookup when the memo slot is empty.\<close>

definition lookup_events :: "state \<Rightarrow> event list" where
  "lookup_events s =
     (case memo_fileSystemProvider s of None \<Rightarrow> [GetProvider Schemas_file] | Some p \<Rightarrow> [])"

text \<open>
  The provider a read of the accessor yields when the history is \<open>t\<close>: the memoized one,
  or else the one looked up.
\<close>

definition provider_for :: "env \<Rightarrow> state \<Rightarrow> event list \<Rightarrow> provider" where
  "provider_for e s t =
     (case memo_fileSystemProvider s of Some p \<Rightarrow> p | None \<Rightarrow> getProvider e t Schemas_file)"

text \<open>
  The schema a call works with: the first statement of each method (in
  \<open>pickWorkspaceAndOpen\<close>, after the assignment to \<^verbatim>\<open>options.availableFileSystems\<close>).
\<close>

fun request_schema :: "env \<Rightarrow> call \<Rightarrow> string" where
  "request_schema e (PickFileFolderAndOpen options) =
     getFileSystemSchema e (defaultUri options) (availableFileSystems options)"
| "request_schema e (PickFileAndOpen options) =
     getFileSystemSchema e (defaultUri options) (availableFileSystems options)"
| "request_schema e (PickFolderAndOpen options) =
     getFileSystemSchema e (defaultUri options) (availableFileSystems options)"
| "request_schema e (PickWorkspaceAndOpen options) =
     getFileSystemSchema e (defaultUri options)
       (Some (getWorkspaceAvailableFileSystems e options))"
| "request_schema e (PickFileToSave default_uri available) =
     getFileSystemSchema e (Some default_uri) available"
| "request_schema e (ShowSaveDialog options) =
     getFileSystemSchema e (defaultUri options) (availableFileSystems options)"
| "request_schema e (ShowOpenDialog options) =
     getFileSystemSchema e (defaultUri options) (availableFileSystems options)"

subsection \<open>Invariants of a run\<close>

text \<open>
  One operation registers at most one handle, and then under the identifier the
  generator yields next.
\<close>

definition id_step :: "env \<Rightarrow> state \<Rightarrow> state \<Rightarrow> bool" where
  "id_step e s s' \<longleftrightarrow>
     uuids_generated s \<le> uuids_generated s' \<and>
     (registered_ids (trace s') = registered_ids (trace s) \<or>
      registered_ids (trace s') = registered_ids (trace s) @ [generateUuid e (uuids_generated s)] \<and>
      uuids_generated s' = Suc (uuids_generated s))"

definition ids_inv :: "env \<Rightarrow> state \<Rightarrow> bool" where
  "ids_inv e s \<longleftrightarrow>
     distinct (registered_ids (trace s)) \<and>
     set (registered_ids (trace s)) \<subseteq> generateUuid e ` {..<uuids_generated s}"

text \<open>
  The memo slot is empty as long as no lookup was made and no handle registered; once
  filled, it holds the provider of the one lookup made, which every registration used.
\<close>

definition memo_inv :: "state \<Rightarrow> bool" where
  "memo_inv s \<longleftrightarrow>
     (case memo_fileSystemProvider s of
        None \<Rightarrow> lookups (trace s) = [] \<and> providers_used (trace s) = []
      | Some p \<Rightarrow> lookups (trace s) = [GetProvider Schemas_file] \<and>
                  set (providers_used (trace s)) \<subseteq> {p})"

subsection \<open>An example environment\<close>

text \<open>
  Concrete collaborators and requests, to evaluate the operations on: every picker
  resolves with a handle, every fallback resolves with a value of its own, the schema is
  the first available file system or else the scheme of the default URI. The file service answers with a
  different provider object at every moment (the number of calls made so far), so that
  a second lookup would show.
\<close>

definition demo_env :: env where
  "demo_env =
     \<lparr>getFileSystemSchema =
        (\<lambda>d a. case a of
                  Some (x # xs) \<Rightarrow> x
                | _ \<Rightarrow> (case d of Some u \<Rightarrow> scheme u | None \<Rightarrow> ''file'')),
      getWorkspaceAvailableFileSystems =
        (\<lambda>options. case availableFileSystems options of
                      Some (x # xs) \<Rightarrow> x # xs
                    | _ \<Rightarrow> [''file'']),
      getPickFileToSaveDialogOptions =
        (\<lambda>d a. \<lparr>defaultUri = Some d, availableFileSystems = a, filters = None\<rparr>),
      defaultFilePath = (\<lambda>t sch. \<lparr>scheme = sch, path = ''/home/file''\<rparr>),
      defaultFolderPath = (\<lambda>t sch. \<lparr>scheme = sch, path = ''/home/folder''\<rparr>),
      defaultWorkspacePath = (\<lambda>t sch. \<lparr>scheme = sch, path = ''/home/workspace''\<rparr>),
      getMediaOrTextMime = (\<lambda>p. None),
      localize = (\<lambda>key message. message),
      generateUuid = (\<lambda>n. replicate (Suc n) CHR ''u''),
      getProvider = (\<lambda>t sch. length t),
      showOpenFilePicker = (\<lambda>t multiple types. Return [\<lparr>name = ''a.txt'', handle_id = 1\<rparr>]),
      showSaveFilePicker = (\<lambda>t types. Return \<lparr>name = ''b.txt'', handle_id = 2\<rparr>),
      showDirectoryPicker = (\<lambda>t. Return \<lparr>name = ''dir'', handle_id = 3\<rparr>),
      openerService_open = (\<lambda>t u. Return True),
      pickFileFolderAndOpenSimplified = (\<lambda>t sch options b. Return (Opaque 1)),
      pickFileAndOpenSimplified = (\<lambda>t sch options b. Return (Opaque 2)),
      pickFolderAndOpenSimplified = (\<lambda>t sch options. Return (Opaque 3)),
      pickWorkspaceAndOpenSimplified = (\<lambda>t sch options. Return (Opaque 4)),
      pickFileToSaveSimplified =
        (\<lambda>t sch options. Return (Some \<lparr>scheme = sch, path = ''/remote/saved''\<rparr>)),
      showSaveDialogSimplified =
        (\<lambda>t sch options. Return (Some \<lparr>scheme = sch, path = ''/remote/saved-as''\<rparr>)),
      showOpenDialogSimplified =
        (\<lambda>t sch options. Return (Some [\<lparr>scheme = sch, path = ''/remote/opened''\<rparr>]))\<rparr>"

definition file_request :: pick_options where
  "file_request =
     \<lparr>defaultUri = Some \<lparr>scheme = ''file'', path = ''/work''\<rparr>, availableFileSystems = None\<rparr>"

definition remote_request :: pick_options where
  "remote_request = \<lparr>defaultUri = None, availableFileSystems = Some [''vscode-remote'']\<rparr>"

definition save_request :: save_options where
  "save_request =
     \<lparr>defaultUri = Some \<lparr>scheme = ''file'', path = ''/work''\<rparr>, availableFileSystems = None,
      filters = None\<rparr>"


definition folder_dialog :: open_options where
  "folder_dialog =
     \<lparr>defaultUri = Some \<lparr>scheme = ''file'', path = ''/work''\<rparr>, availableFileSystems = None,
      filters = None, canSelectFiles = None\<rparr>"

definition file_dialog :: open_options where
  "file_dialog =
     \<lparr>defaultUri = Some \<lparr>scheme = ''file'', path = ''/work''\<rparr>, availableFileSystems = None,
      filters = None, canSelectFiles = Some True\<rparr>"

definition remote_save :: save_options where
  "remote_save =
     \<lparr>defaultUri = None, availableFileSystems = Some [''vscode-remote''], filters = None\<rparr>"

section \<open>Properties\<close>

subsection \<open>Basic facts\<close>

lemma trace_log [simp]: "trace (log ev s) = trace s @ [ev]"
  by (simp add: log_def)

lemma memo_log [simp]: "memo_fileSystemProvider (log ev s) = memo_fileSystemProvider s"
  by (simp add: log_def)

lemma uuids_log [simp]: "uuids_generated (log ev s) = uuids_generated s"
  by (simp add: log_def)

lemma shouldUseSimplified_iff:
  "shouldUseSimplified sch \<longleftrightarrow> sch \<notin> {''file'', ''vscode-userdata'', ''tmp''}"
  by (simp add: shouldUseSimplified_def Schemas_file_def Schemas_userData_def Schemas_tmp_def)

lemma registered_ids_Nil [simp]: "registered_ids [] = []"
  by (simp add: registered_ids_def)

lemma registered_ids_append [simp]:
  "registered_ids (t @ t') = registered_ids t @ registered_ids t'"
  by (simp add: registered_ids_def map_filter_def)

lemma registered_ids_Cons:
  "registered_ids (ev # t) =
     (case registered_id ev of None \<Rightarrow> registered_ids t | Some u \<Rightarrow> u # registered_ids t)"
  by (simp add: registered_ids_def split: option.splits)

lemma providers_used_Nil [simp]: "providers_used [] = []"
  by (simp add: providers_used_def)

lemma providers_used_append [simp]:
  "providers_used (t @ t') = providers_used t @ providers_used t'"
  by (simp add: providers_used_def map_filter_def)

lemma providers_used_Cons:
  "providers_used (ev # t) =
     (case provider_used ev of None \<Rightarrow> providers_used t | Some p \<Rightarrow> p # providers_used t)"
  by (simp add: providers_used_def split: option.splits)

lemma lookups_Nil [simp]: "lookups [] = []"
  by (simp add: lookups_def)

lemma lookups_append [simp]: "lookups (t @ t') = lookups t @ lookups t'"
  by (simp add: lookups_def)

lemma lookups_Cons: "lookups (ev # t) = (if is_lookup ev then ev # lookups t else lookups t)"
  by (simp add: lookups_def)

text \<open>The definitions to unfold when an operation is evaluated in the example environment.\<close>

lemmas eval_defs =
  demo_env_def fresh_def Let_def shouldUseSimplified_def Schemas_file_def Schemas_userData_def
  Schemas_tmp_def fileSystemProvider_def getFilePickerTypes_def log_def URI_from_def

subsection \<open>Dispatch on the schema\<close>

lemma delegates_pickFileFolderAndOpen:
  "delegates s (snd (snd (pickFileFolderAndOpen e options s))) \<longleftrightarrow>
   shouldUseSimplified (getFileSystemSchema e (defaultUri options) (availableFileSystems options))"
  by (simp add: pickFileFolderAndOpen_def delegates_def new_events_def Let_def)

lemma delegates_pickFileAndOpen:
  "delegates s (snd (snd (pickFileAndOpen e options s))) \<longleftrightarrow>
   shouldUseSimplified (getFileSystemSchema e (defaultUri options) (availableFileSystems options))"
  by (simp add: pickFileAndOpen_def delegates_def new_events_def Let_def fileSystemProvider_def
      split: outcome.splits list.splits option.splits prod.splits)

lemma delegates_pickFolderAndOpen:
  "delegates s (snd (snd (pickFolderAndOpen e options s))) \<longleftrightarrow>
   shouldUseSimplified (getFileSystemSchema e (defaultUri options) (availableFileSystems options))"
  by (simp add: pickFolderAndOpen_def delegates_def new_events_def Let_def)

lemma delegates_pickWorkspaceAndOpen:
  "delegates s (snd (snd (pickWorkspaceAndOpen e options s))) \<longleftrightarrow>
   shouldUseSimplified (getFileSystemSchema e (defaultUri options)
     (Some (getWorkspaceAvailableFileSystems e options)))"
  by (simp add: pickWorkspaceAndOpen_def delegates_def new_events_def Let_def)

lemma delegates_pickFileToSave:
  "delegates s (snd (pickFileToSave e d a s)) \<longleftrightarrow>
   shouldUseSimplified (getFileSystemSchema e (Some d) a)"
  by (simp add: pickFileToSave_def delegates_def new_events_def Let_def fileSystemProvider_def
      split: outcome.splits list.splits option.splits prod.splits)

lemma delegates_showSaveDialog:
  "delegates s (snd (showSaveDialog e options s)) \<longleftrightarrow>
   shouldUseSimplified (getFileSystemSchema e (defaultUri options) (availableFileSystems options))"
  by (simp add: showSaveDialog_def delegates_def new_events_def Let_def fileSystemProvider_def
      split: outcome.splits list.splits option.splits prod.splits)

lemma delegates_showOpenDialog:
  "delegates s (snd (showOpenDialog e options s)) \<longleftrightarrow>
   shouldUseSimplified (getFileSystemSchema e (defaultUri options) (availableFileSystems options))"
  by (simp add: showOpenDialog_def delegates_def new_events_def Let_def fileSystemProvider_def
      split: outcome.splits list.splits option.splits prod.splits)

lemma delegates_perform:
  "delegates s (perform e c s) \<longleftrightarrow>
   request_schema e c \<notin> {''file'', ''vscode-userdata'', ''tmp''}"
proof (cases c)
  case (PickFileFolderAndOpen options)
  then show ?thesis
    using delegates_pickFileFolderAndOpen [of s e options]
    by (simp add: shouldUseSimplified_iff)
next
  case (PickFileAndOpen options)
  then show ?thesis
    using delegates_pickFileAndOpen [of s e options]
    by (simp add: shouldUseSimplified_iff)
next
  case (PickFolderAndOpen options)
  then show ?thesis
    using delegates_pickFolderAndOpen [of s e options]
    by (simp add: shouldUseSimplified_iff)
next
  case (PickWorkspaceAndOpen options)
  then show ?thesis
    using delegates_pickWorkspaceAndOpen [of s e options]
    by (simp add: shouldUseSimplified_iff)
next
  case (PickFileToSave d a)
  then show ?thesis
    using delegates_pickFileToSave [of s e d a]
    by (simp add: shouldUseSimplified_iff)
next
  case (ShowSaveDialog options)
  then show ?thesis
    using delegates_showSaveDialog [of s e options]
    by (simp add: shouldUseSimplified_iff)
next
  case (ShowOpenDialog options)
  then show ?thesis
    using delegates_showOpenDialog [of s e options]
    by (simp add: shouldUseSimplified_iff)
qed

text \<open>
  C2. Whatever the operation and the request, the operation delegates to the simplified
  fallback if and only if the schema of the request is none of \<^verbatim>\<open>file\<close>,
  \<^verbatim>\<open>vscode-userdata\<close> and \<^verbatim>\<open>tmp\<close>. On such a schema no fallback is called. On any
  other schema the operation calls its own fallback with the schema and the options
  (after the default path, where the method asks for one), returns what the fallback
  returns, and does nothing else: the state after the call is the state before it with
  those calls added to the trace.
\<close>

theorem simplified_iff_schema_not_native:
  "(delegates s (perform e c s) \<longleftrightarrow>
      request_schema e c \<notin> {''file'', ''vscode-userdata'', ''tmp''}) \<and>
   (let sch = getFileSystemSchema e (defaultUri po) (availableFileSystems po);
        pre = (if defaultUri po = None then [DefaultFilePath sch] else []);
        po1 = (if defaultUri po = None
               then po\<lparr>defaultUri := Some (defaultFilePath e (trace s) sch)\<rparr> else po)
    in sch \<notin> {''file'', ''vscode-userdata'', ''tmp''} \<longrightarrow>
       pickFileFolderAndOpen e po s =
         (pickFileFolderAndOpenSimplified e (trace s @ pre) sch po1 False, po1,
          s\<lparr>trace := trace s @ pre @ [PickFileFolderAndOpenSimplified sch po1 False]\<rparr>) \<and>
       pickFileAndOpen e po s =
         (pickFileAndOpenSimplified e (trace s @ pre) sch po1 False, po1,
          s\<lparr>trace := trace s @ pre @ [PickFileAndOpenSimplified sch po1 False]\<rparr>)) \<and>
   (let sch = getFileSystemSchema e (defaultUri po) (availableFileSystems po);
        pre = (if defaultUri po = None then [DefaultFolderPath sch] else []);
        po1 = (if defaultUri po = None
               then po\<lparr>defaultUri := Some (defaultFolderPath e (trace s) sch)\<rparr> else po)
    in sch \<notin> {''file'', ''vscode-userdata'', ''tmp''} \<longrightarrow>
       pickFolderAndOpen e po s =
         (pickFolderAndOpenSimplified e (trace s @ pre) sch po1, po1,
          s\<lparr>trace := trace s @ pre @ [PickFolderAndOpenSimplified sch po1]\<rparr>)) \<and>
   (let po0 = po\<lparr>availableFileSystems := Some (getWorkspaceAvailableFileSystems e po)\<rparr>;
        sch = getFileSystemSchema e (defaultUri po0) (availableFileSystems po0);
        pre = (if defaultUri po = None then [DefaultWorkspacePath sch] else []);
        po1 = (if defaultUri po = None
               then po0\<lparr>defaultUri := Some (defaultWorkspacePath e (trace s) sch)\<rparr> else po0)
    in sch \<notin> {''file'', ''vscode-userdata'', ''tmp''} \<longrightarrow>
       pickWorkspaceAndOpen e po s =
         (pickWorkspaceAndOpenSimplified e (trace s @ pre) sch po1, po1,
          s\<lparr>trace := trace s @ pre @ [PickWorkspaceAndOpenSimplified sch po1]\<rparr>)) \<and>
   (let sch = getFileSystemSchema e (Some d) a;
        options = getPickFileToSaveDialogOptions e d a
    in sch \<notin> {''file'', ''vscode-userdata'', ''tmp''} \<longrightarrow>
       pickFileToSave e d a s =
         (pickFileToSaveSimplified e (trace s) sch options,
          s\<lparr>trace := trace s @ [PickFileToSaveSimplified sch options]\<rparr>)) \<and>
   (let sch = getFileSystemSchema e (defaultUri so) (availableFileSystems so)
    in sch \<notin> {''file'', ''vscode-userdata'', ''tmp''} \<longrightarrow>
       showSaveDialog e so s =
         (showSaveDialogSimplified e (trace s) sch so,
          s\<lparr>trace := trace s @ [ShowSaveDialogSimplified sch so]\<rparr>)) \<and>
   (let sch = getFileSystemSchema e (defaultUri oo) (availableFileSystems oo)
    in sch \<notin> {''file'', ''vscode-userdata'', ''tmp''} \<longrightarrow>
       showOpenDialog e oo s =
         (showOpenDialogSimplified e (trace s) sch oo,
          s\<lparr>trace := trace s @ [ShowOpenDialogSimplified sch oo]\<rparr>))"
  apply (intro conjI)
  subgoal by (rule delegates_perform)
  subgoal
    by (cases "defaultUri po")
      (simp_all add: pickFileFolderAndOpen_def pickFileAndOpen_def Let_def log_def
        shouldUseSimplified_iff)
  subgoal
    by (cases "defaultUri po")
      (simp_all add: pickFolderAndOpen_def Let_def log_def shouldUseSimplified_iff)
  subgoal
    by (cases "defaultUri po")
      (simp_all add: pickWorkspaceAndOpen_def Let_def log_def shouldUseSimplified_iff)
  subgoal
    by (simp add: pickFileToSave_def Let_def log_def shouldUseSimplified_iff)
  subgoal
    by (simp add: showSaveDialog_def Let_def log_def shouldUseSimplified_iff)
  subgoal
    by (simp add: showOpenDialog_def Let_def log_def shouldUseSimplified_iff)
  done

theorem simplified_iff_schema_not_native_witness:
  "delegates fresh (perform demo_env (PickFileAndOpen remote_request) fresh) \<and>
   \<not> delegates fresh (perform demo_env (PickFileAndOpen file_request) fresh) \<and>
   showSaveDialog demo_env remote_save fresh =
     (Return (Some \<lparr>scheme = ''vscode-remote'', path = ''/remote/saved-as''\<rparr>),
      fresh\<lparr>trace := trace fresh @ [ShowSaveDialogSimplified ''vscode-remote'' remote_save]\<rparr>) \<and>
   pickFolderAndOpen demo_env remote_request fresh =
     (Return (Opaque 3),
      remote_request\<lparr>defaultUri :=
        Some \<lparr>scheme = ''vscode-remote'', path = ''/home/folder''\<rparr>\<rparr>,
      fresh\<lparr>trace := trace fresh @
        [DefaultFolderPath ''vscode-remote'',
         PickFolderAndOpenSimplified ''vscode-remote''
           (remote_request\<lparr>defaultUri :=
              Some \<lparr>scheme = ''vscode-remote'', path = ''/home/folder''\<rparr>\<rparr>)]\<rparr>)"
proof -
  note all = simplified_iff_schema_not_native
    [where s = fresh and e = demo_env and po = remote_request and so = remote_save
      and d = "\<lparr>scheme = ''file'', path = ''/work/b.txt''\<rparr>" and a = None
      and oo = folder_dialog]
  have remote: "delegates fresh (perform demo_env (PickFileAndOpen remote_request) fresh)"
    using all [where c = "PickFileAndOpen remote_request", THEN conjunct1]
    by (simp add: demo_env_def remote_request_def)
  have native: "\<not> delegates fresh (perform demo_env (PickFileAndOpen file_request) fresh)"
    using all [where c = "PickFileAndOpen file_request", THEN conjunct1]
    by (simp add: demo_env_def file_request_def)
  have n: "getFileSystemSchema demo_env (defaultUri remote_save)
      (availableFileSystems remote_save) = ''vscode-remote''"
    "getFileSystemSchema demo_env (defaultUri remote_request)
      (availableFileSystems remote_request) = ''vscode-remote''"
    "getFileSystemSchema demo_env None (availableFileSystems remote_request) = ''vscode-remote''"
    "defaultUri remote_request = None"
    by (simp_all add: demo_env_def remote_save_def remote_request_def)
  have r: "showSaveDialogSimplified demo_env t sch so =
      Return (Some \<lparr>scheme = sch, path = ''/remote/saved-as''\<rparr>)"
    "pickFolderAndOpenSimplified demo_env t sch po = Return (Opaque 3)"
    "defaultFolderPath demo_env t sch = \<lparr>scheme = sch, path = ''/home/folder''\<rparr>"
    for t sch so po
    by (simp_all add: demo_env_def)
  have save: "showSaveDialog demo_env remote_save fresh =
     (Return (Some \<lparr>scheme = ''vscode-remote'', path = ''/remote/saved-as''\<rparr>),
      fresh\<lparr>trace := trace fresh @ [ShowSaveDialogSimplified ''vscode-remote'' remote_save]\<rparr>)"
    using all [where c = "PickFileAndOpen remote_request"]
    by (simp add: Let_def n r)
  have folder: "pickFolderAndOpen demo_env remote_request fresh =
     (Return (Opaque 3),
      remote_request\<lparr>defaultUri :=
        Some \<lparr>scheme = ''vscode-remote'', path = ''/home/folder''\<rparr>\<rparr>,
      fresh\<lparr>trace := trace fresh @
        [DefaultFolderPath ''vscode-remote'',
         PickFolderAndOpenSimplified ''vscode-remote''
           (remote_request\<lparr>defaultUri :=
              Some \<lparr>scheme = ''vscode-remote'', path = ''/home/folder''\<rparr>\<rparr>)]\<rparr>)"
    using all [where c = "PickFileAndOpen remote_request"]
    by (simp add: Let_def n r)
  show ?thesis
    using remote native save folder by blast
qed

text \<open>
  C4. When the schema of the request is \<^verbatim>\<open>file\<close>, \<^verbatim>\<open>vscode-userdata\<close> or \<^verbatim>\<open>tmp\<close>, each of
  \<open>pickFileFolderAndOpen\<close>, \<open>pickFolderAndOpen\<close> and \<open>pickWorkspaceAndOpen\<close> throws an
  error, and neither shows a picker nor registers a handle on the way.
\<close>

theorem folder_and_workspace_picks_throw_on_native_schema:
  "(getFileSystemSchema e (defaultUri options) (availableFileSystems options)
      \<in> {''file'', ''vscode-userdata'', ''tmp''} \<longrightarrow>
    fst (pickFileFolderAndOpen e options s) =
      Throw (Error (localize e ''pickFolderAndOpen''
        ''Can't open folders, try adding a folder to the workspace instead.'')) \<and>
    \<not> invokes_picker s (snd (snd (pickFileFolderAndOpen e options s))) \<and>
    \<not> registers_handle s (snd (snd (pickFileFolderAndOpen e options s)))) \<and>
   (getFileSystemSchema e (defaultUri options) (availableFileSystems options)
      \<in> {''file'', ''vscode-userdata'', ''tmp''} \<longrightarrow>
    fst (pickFolderAndOpen e options s) =
      Throw (Error (localize e ''pickFolderAndOpen''
        ''Can't open folders, try adding a folder to the workspace instead.'')) \<and>
    \<not> invokes_picker s (snd (snd (pickFolderAndOpen e options s))) \<and>
    \<not> registers_handle s (snd (snd (pickFolderAndOpen e options s)))) \<and>
   (getFileSystemSchema e (defaultUri options)
        (Some (getWorkspaceAvailableFileSystems e options))
      \<in> {''file'', ''vscode-userdata'', ''tmp''} \<longrightarrow>
    fst (pickWorkspaceAndOpen e options s) =
      Throw (Error (localize e ''pickWorkspaceAndOpen''
        ''Can't open workspaces, try adding a folder to the workspace instead.'')) \<and>
    \<not> invokes_picker s (snd (snd (pickWorkspaceAndOpen e options s))) \<and>
    \<not> registers_handle s (snd (snd (pickWorkspaceAndOpen e options s))))"
proof -
  have a: "sch \<in> {''file'', ''vscode-userdata'', ''tmp''} \<Longrightarrow> \<not> shouldUseSimplified sch" for sch
    by (simp add: shouldUseSimplified_iff)
  show ?thesis
    by (simp add: pickFileFolderAndOpen_def pickFolderAndOpen_def pickWorkspaceAndOpen_def
        invokes_picker_def registers_handle_def new_events_def Let_def a
        del: insert_iff)
qed

theorem folder_and_workspace_picks_throw_on_native_schema_witness:
  "fst (pickFileFolderAndOpen demo_env file_request fresh) =
     Throw (Error ''Can't open folders, try adding a folder to the workspace instead.'') \<and>
   \<not> invokes_picker fresh (snd (snd (pickFileFolderAndOpen demo_env file_request fresh))) \<and>
   \<not> registers_handle fresh (snd (snd (pickFileFolderAndOpen demo_env file_request fresh))) \<and>
   fst (pickFolderAndOpen demo_env file_request fresh) =
     Throw (Error ''Can't open folders, try adding a folder to the workspace instead.'') \<and>
   \<not> invokes_picker fresh (snd (snd (pickFolderAndOpen demo_env file_request fresh))) \<and>
   \<not> registers_handle fresh (snd (snd (pickFolderAndOpen demo_env file_request fresh))) \<and>
   fst (pickWorkspaceAndOpen demo_env file_request fresh) =
     Throw (Error ''Can't open workspaces, try adding a folder to the workspace instead.'') \<and>
   \<not> invokes_picker fresh (snd (snd (pickWorkspaceAndOpen demo_env file_request fresh))) \<and>
   \<not> registers_handle fresh (snd (snd (pickWorkspaceAndOpen demo_env file_request fresh)))"
proof -
  have h1: "getFileSystemSchema demo_env (defaultUri file_request)
      (availableFileSystems file_request) \<in> {''file'', ''vscode-userdata'', ''tmp''}"
    by (simp add: demo_env_def file_request_def)
  have h2: "getFileSystemSchema demo_env (defaultUri file_request)
      (Some (getWorkspaceAvailableFileSystems demo_env file_request))
      \<in> {''file'', ''vscode-userdata'', ''tmp''}"
    by (simp add: demo_env_def file_request_def)
  show ?thesis
    using folder_and_workspace_picks_throw_on_native_schema [of demo_env file_request fresh] h1 h2
    by (simp add: demo_env_def del: insert_iff)
qed

subsection \<open>The default URI\<close>

text \<open>
  C8. A call of \<open>pickFileFolderAndOpen\<close>, \<open>pickFileAndOpen\<close>, \<open>pickFolderAndOpen\<close> or
  \<open>pickWorkspaceAndOpen\<close> that finds \<^verbatim>\<open>options.defaultUri\<close> set leaves it as it is; only
  when it is absent does the call assign the default file, folder or workspace path.
\<close>

theorem defaultUri_kept_when_set:
  "(defaultUri options = Some u \<longrightarrow>
      defaultUri (fst (snd (pickFileFolderAndOpen e options s))) = Some u \<and>
      defaultUri (fst (snd (pickFileAndOpen e options s))) = Some u \<and>
      defaultUri (fst (snd (pickFolderAndOpen e options s))) = Some u \<and>
      defaultUri (fst (snd (pickWorkspaceAndOpen e options s))) = Some u) \<and>
   (defaultUri options = None \<longrightarrow>
      defaultUri (fst (snd (pickFileFolderAndOpen e options s))) =
        Some (defaultFilePath e (trace s) (request_schema e (PickFileFolderAndOpen options))) \<and>
      defaultUri (fst (snd (pickFileAndOpen e options s))) =
        Some (defaultFilePath e (trace s) (request_schema e (PickFileAndOpen options))) \<and>
      defaultUri (fst (snd (pickFolderAndOpen e options s))) =
        Some (defaultFolderPath e (trace s) (request_schema e (PickFolderAndOpen options))) \<and>
      defaultUri (fst (snd (pickWorkspaceAndOpen e options s))) =
        Some (defaultWorkspacePath e (trace s) (request_schema e (PickWorkspaceAndOpen options))))"
  by (simp add: pickFileFolderAndOpen_def pickFileAndOpen_def pickFolderAndOpen_def
      pickWorkspaceAndOpen_def Let_def
      split: outcome.splits list.splits option.splits prod.splits)

theorem defaultUri_kept_when_set_witness:
  "defaultUri (fst (snd (pickFileFolderAndOpen demo_env file_request fresh))) =
     Some \<lparr>scheme = ''file'', path = ''/work''\<rparr> \<and>
   defaultUri (fst (snd (pickFileAndOpen demo_env file_request fresh))) =
     Some \<lparr>scheme = ''file'', path = ''/work''\<rparr> \<and>
   defaultUri (fst (snd (pickFolderAndOpen demo_env file_request fresh))) =
     Some \<lparr>scheme = ''file'', path = ''/work''\<rparr> \<and>
   defaultUri (fst (snd (pickWorkspaceAndOpen demo_env file_request fresh))) =
     Some \<lparr>scheme = ''file'', path = ''/work''\<rparr> \<and>
   defaultUri (fst (snd (pickFolderAndOpen demo_env remote_request fresh))) =
     Some \<lparr>scheme = ''vscode-remote'', path = ''/home/folder''\<rparr>"
proof -
  have set: "defaultUri file_request = Some \<lparr>scheme = ''file'', path = ''/work''\<rparr>"
    by (simp add: file_request_def)
  have absent: "defaultUri remote_request = None"
    by (simp add: remote_request_def)
  show ?thesis
    using defaultUri_kept_when_set
        [of file_request "\<lparr>scheme = ''file'', path = ''/work''\<rparr>" demo_env fresh]
      defaultUri_kept_when_set [of remote_request undefined demo_env fresh] set absent
    by (simp add: demo_env_def remote_request_def)
qed

subsection \<open>Identifiers of registered handles\<close>

lemma id_step_pickFileFolderAndOpen:
  "id_step e s (snd (snd (pickFileFolderAndOpen e options s)))"
  by (simp add: id_step_def pickFileFolderAndOpen_def Let_def registered_ids_Cons)

lemma id_step_pickFolderAndOpen:
  "id_step e s (snd (snd (pickFolderAndOpen e options s)))"
  by (simp add: id_step_def pickFolderAndOpen_def Let_def registered_ids_Cons)

lemma id_step_pickWorkspaceAndOpen:
  "id_step e s (snd (snd (pickWorkspaceAndOpen e options s)))"
  by (simp add: id_step_def pickWorkspaceAndOpen_def Let_def registered_ids_Cons)

lemma id_step_pickFileAndOpen:
  "id_step e s (snd (snd (pickFileAndOpen e options s)))"
  by (simp add: id_step_def pickFileAndOpen_def Let_def registered_ids_Cons
      fileSystemProvider_def
      split: outcome.splits list.splits option.splits prod.splits)

lemma id_step_pickFileToSave:
  "id_step e s (snd (pickFileToSave e d a s))"
  by (simp add: id_step_def pickFileToSave_def Let_def registered_ids_Cons
      fileSystemProvider_def
      split: outcome.splits list.splits option.splits prod.splits)

lemma id_step_showSaveDialog:
  "id_step e s (snd (showSaveDialog e options s))"
  by (simp add: id_step_def showSaveDialog_def Let_def registered_ids_Cons
      fileSystemProvider_def
      split: outcome.splits list.splits option.splits prod.splits)

lemma id_step_showOpenDialog:
  "id_step e s (snd (showOpenDialog e options s))"
  by (simp add: id_step_def showOpenDialog_def Let_def registered_ids_Cons
      fileSystemProvider_def
      split: outcome.splits list.splits option.splits prod.splits)

lemma id_step_perform: "id_step e s (perform e c s)"
  by (cases c)
    (simp_all add: id_step_pickFileFolderAndOpen id_step_pickFileAndOpen
      id_step_pickFolderAndOpen id_step_pickWorkspaceAndOpen id_step_pickFileToSave
      id_step_showSaveDialog id_step_showOpenDialog)

lemma ids_inv_step:
  assumes gen: "inj (generateUuid e)" and inv: "ids_inv e s" and step: "id_step e s s'"
  shows "ids_inv e s'"
proof -
  from step have mono: "uuids_generated s \<le> uuids_generated s'"
    by (simp add: id_step_def)
  from step consider
      (same) "registered_ids (trace s') = registered_ids (trace s)"
    | (new) "registered_ids (trace s') =
               registered_ids (trace s) @ [generateUuid e (uuids_generated s)]"
            "uuids_generated s' = Suc (uuids_generated s)"
    by (auto simp: id_step_def)
  then show ?thesis
  proof cases
    case same
    have "generateUuid e ` {..<uuids_generated s} \<subseteq> generateUuid e ` {..<uuids_generated s'}"
      using mono by (intro image_mono) simp
    with inv same show ?thesis
      by (auto simp: ids_inv_def)
  next
    case new
    have unused: "generateUuid e (uuids_generated s) \<notin> set (registered_ids (trace s))"
    proof
      assume "generateUuid e (uuids_generated s) \<in> set (registered_ids (trace s))"
      with inv obtain k where "k < uuids_generated s"
        and "generateUuid e (uuids_generated s) = generateUuid e k"
        by (auto simp: ids_inv_def)
      with gen show False
        by (auto dest: injD)
    qed
    from inv have "set (registered_ids (trace s)) \<subseteq> generateUuid e ` {..<Suc (uuids_generated s)}"
      by (auto simp: ids_inv_def less_Suc_eq)
    with inv new unused show ?thesis
      by (simp add: ids_inv_def)
  qed
qed

lemma ids_inv_run:
  "inj (generateUuid e) \<Longrightarrow> ids_inv e s \<Longrightarrow> ids_inv e (run e cs s)"
proof (induction cs arbitrary: s)
  case Nil
  then show ?case by simp
next
  case (Cons c cs)
  from Cons.prems have "ids_inv e (perform e c s)"
    by (blast intro: ids_inv_step id_step_perform)
  with Cons show ?case by simp
qed

lemma ids_inv_fresh: "ids_inv e fresh"
  by (simp add: ids_inv_def fresh_def)

text \<open>
  C3. If the UUID generator never repeats a value, then after any sequence of
  operations on a new instance the identifiers of all registrations made (of file and
  of directory handles) are pairwise distinct.
\<close>

theorem registered_identifiers_distinct:
  assumes "inj (generateUuid e)"
  shows "distinct (registered_ids (trace (run e cs fresh)))"
  using ids_inv_run [OF assms ids_inv_fresh, of cs] by (simp add: ids_inv_def)

theorem registered_identifiers_distinct_witness:
  "inj (generateUuid demo_env) \<and>
   distinct (registered_ids (trace (run demo_env
     [PickFileAndOpen file_request,
      PickFileToSave \<lparr>scheme = ''file'', path = ''/work/b.txt''\<rparr> None,
      PickFolderAndOpen remote_request,
      PickFileAndOpen file_request] fresh)))"
proof -
  have gen: "inj (generateUuid demo_env)"
    by (simp add: demo_env_def inj_on_def)
  show ?thesis
    by (intro conjI gen registered_identifiers_distinct [OF gen])
qed


subsection \<open>The memoized accessor\<close>

lemma fileSystemProvider_memo:
  "memo_fileSystemProvider (snd (fileSystemProvider e s)) = Some (fst (fileSystemProvider e s))"
  by (simp add: fileSystemProvider_def Let_def split: option.splits)

lemma fileSystemProvider_again:
  "memo_fileSystemProvider s = Some p \<Longrightarrow> fileSystemProvider e s = (p, s)"
  by (simp add: fileSystemProvider_def)

lemma memo_kept_pickFileFolderAndOpen:
  "memo_fileSystemProvider s = Some p \<Longrightarrow>
   memo_fileSystemProvider (snd (snd (pickFileFolderAndOpen e options s))) = Some p"
  by (simp add: pickFileFolderAndOpen_def Let_def)

lemma memo_kept_pickFileAndOpen:
  "memo_fileSystemProvider s = Some p \<Longrightarrow>
   memo_fileSystemProvider (snd (snd (pickFileAndOpen e options s))) = Some p"
  by (simp add: pickFileAndOpen_def Let_def fileSystemProvider_def
      split: outcome.splits list.splits option.splits prod.splits)

lemma memo_kept_pickFolderAndOpen:
  "memo_fileSystemProvider s = Some p \<Longrightarrow>
   memo_fileSystemProvider (snd (snd (pickFolderAndOpen e options s))) = Some p"
  by (simp add: pickFolderAndOpen_def Let_def)

lemma memo_kept_pickWorkspaceAndOpen:
  "memo_fileSystemProvider s = Some p \<Longrightarrow>
   memo_fileSystemProvider (snd (snd (pickWorkspaceAndOpen e options s))) = Some p"
  by (simp add: pickWorkspaceAndOpen_def Let_def)

lemma memo_kept_pickFileToSave:
  "memo_fileSystemProvider s = Some p \<Longrightarrow>
   memo_fileSystemProvider (snd (pickFileToSave e d a s)) = Some p"
  by (simp add: pickFileToSave_def Let_def fileSystemProvider_def
      split: outcome.splits list.splits option.splits prod.splits)

lemma memo_kept_showSaveDialog:
  "memo_fileSystemProvider s = Some p \<Longrightarrow>
   memo_fileSystemProvider (snd (showSaveDialog e options s)) = Some p"
  by (simp add: showSaveDialog_def Let_def fileSystemProvider_def
      split: outcome.splits list.splits option.splits prod.splits)

lemma memo_kept_showOpenDialog:
  "memo_fileSystemProvider s = Some p \<Longrightarrow>
   memo_fileSystemProvider (snd (showOpenDialog e options s)) = Some p"
  by (simp add: showOpenDialog_def Let_def fileSystemProvider_def
      split: outcome.splits list.splits option.splits prod.splits)

lemma memo_kept_perform:
  "memo_fileSystemProvider s = Some p \<Longrightarrow> memo_fileSystemProvider (perform e c s) = Some p"
  by (cases c)
    (simp_all add: memo_kept_pickFileFolderAndOpen memo_kept_pickFileAndOpen
      memo_kept_pickFolderAndOpen memo_kept_pickWorkspaceAndOpen memo_kept_pickFileToSave
      memo_kept_showSaveDialog memo_kept_showOpenDialog)

lemma memo_kept_run:
  "memo_fileSystemProvider s = Some p \<Longrightarrow> memo_fileSystemProvider (run e cs s) = Some p"
  by (induction cs arbitrary: s) (simp_all add: memo_kept_perform)

lemmas memo_inv_simps =
  memo_inv_def Let_def fileSystemProvider_def lookups_Cons providers_used_Cons

lemma memo_inv_pickFileFolderAndOpen:
  "memo_inv s \<Longrightarrow> memo_inv (snd (snd (pickFileFolderAndOpen e options s)))"
  by (simp add: pickFileFolderAndOpen_def memo_inv_simps split: option.splits)

lemma memo_inv_pickFolderAndOpen:
  "memo_inv s \<Longrightarrow> memo_inv (snd (snd (pickFolderAndOpen e options s)))"
  by (simp add: pickFolderAndOpen_def memo_inv_simps split: option.splits)

lemma memo_inv_pickWorkspaceAndOpen:
  "memo_inv s \<Longrightarrow> memo_inv (snd (snd (pickWorkspaceAndOpen e options s)))"
  by (simp add: pickWorkspaceAndOpen_def memo_inv_simps split: option.splits)

lemma memo_inv_pickFileAndOpen:
  "memo_inv s \<Longrightarrow> memo_inv (snd (snd (pickFileAndOpen e options s)))"
  by (auto simp add: pickFileAndOpen_def memo_inv_simps
      split: outcome.splits list.splits option.splits prod.splits)

lemma memo_inv_pickFileToSave:
  "memo_inv s \<Longrightarrow> memo_inv (snd (pickFileToSave e d a s))"
  by (auto simp add: pickFileToSave_def memo_inv_simps
      split: outcome.splits list.splits option.splits prod.splits)

lemma memo_inv_showSaveDialog:
  "memo_inv s \<Longrightarrow> memo_inv (snd (showSaveDialog e options s))"
  by (auto simp add: showSaveDialog_def memo_inv_simps
      split: outcome.splits list.splits option.splits prod.splits)

lemma memo_inv_showOpenDialog:
  "memo_inv s \<Longrightarrow> memo_inv (snd (showOpenDialog e options s))"
  by (auto simp add: showOpenDialog_def memo_inv_simps
      split: outcome.splits list.splits option.splits prod.splits)

lemma memo_inv_perform: "memo_inv s \<Longrightarrow> memo_inv (perform e c s)"
  by (cases c)
    (simp_all add: memo_inv_pickFileFolderAndOpen memo_inv_pickFileAndOpen
      memo_inv_pickFolderAndOpen memo_inv_pickWorkspaceAndOpen memo_inv_pickFileToSave
      memo_inv_showSaveDialog memo_inv_showOpenDialog)

lemma memo_inv_run: "memo_inv s \<Longrightarrow> memo_inv (run e cs s)"
  by (induction cs arbitrary: s) (simp_all add: memo_inv_perform)

lemma memo_inv_fresh: "memo_inv fresh"
  by (simp add: memo_inv_def fresh_def)

lemma card_set_le_1: "set xs \<subseteq> {p} \<Longrightarrow> card (set xs) \<le> Suc 0"
  using card_mono [of "{p}" "set xs"] by simp

text \<open>
  C5. The accessor \<open>fileSystemProvider\<close> is memoized. A read of it, any calls of the
  service later, yields the provider object the first read yielded, and a read that
  follows a read makes no call at all. In any sequence of operations on a new instance
  \<^verbatim>\<open>fileService.getProvider\<close> is called at most once, for the scheme \<^verbatim>\<open>file\<close>, and all
  registrations go to one provider object.
\<close>

theorem fileSystemProvider_memoized:
  "fst (fileSystemProvider e (run e cs (snd (fileSystemProvider e s)))) =
     fst (fileSystemProvider e s) \<and>
   new_events (snd (fileSystemProvider e s))
     (snd (fileSystemProvider e (snd (fileSystemProvider e s)))) = [] \<and>
   (lookups (trace (run e cs fresh)) = [] \<or>
    lookups (trace (run e cs fresh)) = [GetProvider ''file'']) \<and>
   card (set (providers_used (trace (run e cs fresh)))) \<le> 1"
proof -
  let ?s1 = "snd (fileSystemProvider e s)" and ?p = "fst (fileSystemProvider e s)"
  have m: "memo_fileSystemProvider ?s1 = Some ?p"
    by (rule fileSystemProvider_memo)
  have "memo_fileSystemProvider (run e cs ?s1) = Some ?p"
    using m by (rule memo_kept_run)
  then have a: "fst (fileSystemProvider e (run e cs ?s1)) = ?p"
    by (simp add: fileSystemProvider_again)
  have b: "new_events ?s1 (snd (fileSystemProvider e ?s1)) = []"
    using m by (simp add: fileSystemProvider_again new_events_def)
  have inv: "memo_inv (run e cs fresh)"
    by (rule memo_inv_run [OF memo_inv_fresh])
  have c: "lookups (trace (run e cs fresh)) = [] \<or>
      lookups (trace (run e cs fresh)) = [GetProvider ''file'']"
    using inv by (auto simp: memo_inv_def Schemas_file_def split: option.splits)
  have d: "card (set (providers_used (trace (run e cs fresh)))) \<le> 1"
    using inv by (auto simp: memo_inv_def intro: card_set_le_1 split: option.splits)
  from a b c d show ?thesis by blast
qed

theorem fileSystemProvider_memoized_witness:
  "fst (fileSystemProvider demo_env
     (run demo_env [ShowSaveDialog save_request, ShowSaveDialog save_request]
        (snd (fileSystemProvider demo_env fresh)))) = fst (fileSystemProvider demo_env fresh) \<and>
   lookups (trace (run demo_env [ShowSaveDialog save_request, ShowSaveDialog save_request]
     fresh)) = [GetProvider ''file''] \<and>
   card (set (providers_used (trace (run demo_env
     [ShowSaveDialog save_request, ShowSaveDialog save_request] fresh)))) \<le> 1"
proof -
  have "lookups (trace (run demo_env [ShowSaveDialog save_request, ShowSaveDialog save_request]
     fresh)) \<noteq> []"
    by (simp add: showSaveDialog_def save_request_def lookups_Cons eval_defs)
  then show ?thesis
    using fileSystemProvider_memoized
      [of demo_env "[ShowSaveDialog save_request, ShowSaveDialog save_request]" fresh]
    by blast
qed

lemma new_events_self [simp]: "new_events s s = []"
  by (simp add: new_events_def)

lemma new_events_log [simp]: "new_events s (log ev s) = [ev]"
  by (simp add: new_events_def)






subsection \<open>The native path\<close>

lemma fileSystemProvider_eq:
  "fileSystemProvider e s =
     (provider_for e s (trace s),
      s\<lparr>trace := trace s @ lookup_events s,
        memo_fileSystemProvider := Some (provider_for e s (trace s))\<rparr>)"
  by (simp add: fileSystemProvider_def provider_for_def lookup_events_def Let_def log_def
      split: option.splits)

lemma native_not_simplified:
  "sch \<in> {''file'', ''vscode-userdata'', ''tmp''} \<Longrightarrow> \<not> shouldUseSimplified sch"
  by (simp add: shouldUseSimplified_iff)






text \<open>
  What \<open>showOpenDialog\<close> does on a schema the native picker serves, case by case. It
  shows the file picker when \<^verbatim>\<open>options.canSelectFiles\<close> is true and the directory picker
  otherwise. If the picker rejects, so does the call, and nothing is registered. If the
  file picker resolves with exactly one handle, that handle is registered as a file
  handle; with any other number of handles nothing is registered and the result is
  \<^verbatim>\<open>undefined\<close>. The handle of the directory picker is registered as a directory
  handle. For a registered handle whose name is not empty the result is the one-element
  array of the URI of scheme \<^verbatim>\<open>file\<close> and path \<^verbatim>\<open>/<uuid>/<name>\<close>.
\<close>

theorem showOpenDialog_on_native_schema:
  "getFileSystemSchema e (defaultUri options) (availableFileSystems options)
     \<in> {''file'', ''vscode-userdata'', ''tmp''} \<longrightarrow>
   (let uuid = generateUuid e (uuids_generated s);
        types = getFilePickerTypes e (filters options);
        r = showOpenDialog e options s;
        new = new_events s (snd r)
    in (canSelectFiles options = Some True \<longrightarrow>
          (case showOpenFilePicker e (trace s) False types of
             Throw err \<Rightarrow> fst r = Throw err \<and> new = [ShowOpenFilePicker False types]
           | Return hs \<Rightarrow>
               (case hs of
                  [h] \<Rightarrow>
                    new = ShowOpenFilePicker False types # lookup_events s @
                      [RegisterFileHandle
                         (provider_for e s (trace s @ [ShowOpenFilePicker False types])) uuid h] \<and>
                    fst r =
                      (if name h = [] then Return None
                       else Return (Some [\<lparr>scheme = ''file'',
                                            path = ''/'' @ uuid @ ''/'' @ name h\<rparr>]))
                | _ \<Rightarrow> new = [ShowOpenFilePicker False types] \<and> fst r = Return None))) \<and>
       (canSelectFiles options \<noteq> Some True \<longrightarrow>
          (case showDirectoryPicker e (trace s) of
             Throw err \<Rightarrow> fst r = Throw err \<and> new = [ShowDirectoryPicker]
           | Return h \<Rightarrow>
               new = ShowDirectoryPicker # lookup_events s @
                 [RegisterDirectoryHandle
                    (provider_for e s (trace s @ [ShowDirectoryPicker])) uuid h] \<and>
               fst r =
                 (if name h = [] then Return None
                  else Return (Some [\<lparr>scheme = ''file'',
                                       path = ''/'' @ uuid @ ''/'' @ name h\<rparr>])))))"
proof (cases "canSelectFiles options = Some True")
  case True
  then show ?thesis
    by (simp add: showOpenDialog_def Let_def fileSystemProvider_eq new_events_def
        native_not_simplified URI_from_def Schemas_file_def log_def provider_for_def
        lookup_events_def truthy_def
        split: outcome.split option.split list.split del: insert_iff)
next
  case False
  then show ?thesis
    by (simp add: showOpenDialog_def Let_def fileSystemProvider_eq new_events_def
        native_not_simplified URI_from_def Schemas_file_def log_def provider_for_def
        lookup_events_def truthy_def
        split: outcome.split option.split list.split del: insert_iff)
qed

theorem showOpenDialog_on_native_schema_witness:
  "new_events fresh (snd (showOpenDialog demo_env file_dialog fresh)) =
     [ShowOpenFilePicker False None, GetProvider ''file'',
      RegisterFileHandle 1 ''u'' \<lparr>name = ''a.txt'', handle_id = 1\<rparr>] \<and>
   fst (showOpenDialog demo_env file_dialog fresh) =
     Return (Some [\<lparr>scheme = ''file'', path = ''/u/a.txt''\<rparr>]) \<and>
   new_events fresh (snd (showOpenDialog demo_env folder_dialog fresh)) =
     [ShowDirectoryPicker, GetProvider ''file'',
      RegisterDirectoryHandle 1 ''u'' \<lparr>name = ''dir'', handle_id = 3\<rparr>] \<and>
   fst (showOpenDialog demo_env folder_dialog fresh) =
     Return (Some [\<lparr>scheme = ''file'', path = ''/u/dir''\<rparr>])"
proof -
  have n1: "getFileSystemSchema demo_env (defaultUri file_dialog)
      (availableFileSystems file_dialog) \<in> {''file'', ''vscode-userdata'', ''tmp''}"
    by (simp add: demo_env_def file_dialog_def)
  have n2: "getFileSystemSchema demo_env (defaultUri folder_dialog)
      (availableFileSystems folder_dialog) \<in> {''file'', ''vscode-userdata'', ''tmp''}"
    by (simp add: demo_env_def folder_dialog_def)
  have c1: "canSelectFiles file_dialog = Some True"
    by (simp add: file_dialog_def)
  have c2: "canSelectFiles folder_dialog \<noteq> Some True"
    by (simp add: folder_dialog_def)
  have p1: "showOpenFilePicker demo_env (trace fresh) False
      (getFilePickerTypes demo_env (filters file_dialog)) =
      Return [\<lparr>name = ''a.txt'', handle_id = 1\<rparr>]"
    by (simp add: demo_env_def)
  have p2: "showDirectoryPicker demo_env (trace fresh) = Return \<lparr>name = ''dir'', handle_id = 3\<rparr>"
    by (simp add: demo_env_def)
  have g: "generateUuid demo_env (uuids_generated fresh) = ''u''"
    by (simp add: demo_env_def fresh_def)
  have t: "getFilePickerTypes demo_env (filters file_dialog) = None"
    by (simp add: getFilePickerTypes_def file_dialog_def)
  have l: "lookup_events fresh = [GetProvider ''file'']"
    by (simp add: lookup_events_def fresh_def Schemas_file_def)
  have q1: "provider_for demo_env fresh (trace fresh @ [ShowOpenFilePicker False None]) = 1"
    by (simp add: provider_for_def fresh_def demo_env_def)
  have q2: "provider_for demo_env fresh (trace fresh @ [ShowDirectoryPicker]) = 1"
    by (simp add: provider_for_def fresh_def demo_env_def)
  show ?thesis
    using showOpenDialog_on_native_schema [of demo_env file_dialog fresh]
      showOpenDialog_on_native_schema [of demo_env folder_dialog fresh]
      n1 n2 c1 c2 p1 p2
    by (simp add: Let_def g t l q1 q2 del: insert_iff)
qed

end
